theory Spec2Isabelle
  imports Complex_Main
begin

section \<open>Strings and numbers\<close>

text \<open>
  A Python \<open>str\<close> is modelled by the bytes of its UTF-8 encoding, a \<open>string\<close>.
  Every character the source's patterns and tables name is ASCII, hence one byte, except
  the three symbols below.  Python floats are modelled by the reals they denote: the
  comparisons of the source are exact on those; NaN and the infinities are outside the
  model.
\<close>

definition sym_ge :: string where
  \<comment> \<open>U+2265, GREATER-THAN OR EQUAL TO\<close>
  "sym_ge = [CHR 0xE2, CHR 0x89, CHR 0xA5]"

definition sym_le :: string where
  \<comment> \<open>U+2264, LESS-THAN OR EQUAL TO\<close>
  "sym_le = [CHR 0xE2, CHR 0x89, CHR 0xA4]"

definition sym_deg :: string where
  \<comment> \<open>U+00B0, DEGREE SIGN\<close>
  "sym_deg = [CHR 0xC2, CHR 0xB0]"

section \<open>core/validate.py\<close>

text \<open>
  \<open>normalize\<close> hands its three arguments to the Pint library, which is not part of the
  repository: the library is a parameter \<open>P\<close> of the model.  \<open>None\<close> as a result stands
  for any exception Pint raises; \<open>None\<close> as an argument stands for a cell that holds no
  number or no string (Python's \<open>None\<close>, a missing CSV cell).
\<close>

type_synonym pint = "real option \<Rightarrow> string option \<Rightarrow> string option \<Rightarrow> real option"

definition normalize :: "pint \<Rightarrow> real option \<Rightarrow> string option \<Rightarrow> string option \<Rightarrow> real option" where
  "normalize P v from_unit to_unit = P v from_unit to_unit"

definition OPS :: "(string \<times> (real \<Rightarrow> real \<Rightarrow> bool)) list" where
  "OPS =
    [(''>'', \<lambda>a b. a > b),
     (sym_ge, \<lambda>a b. a \<ge> b),
     (''>='', \<lambda>a b. a \<ge> b),
     (''='', \<lambda>a b. \<bar>a - b\<bar> < 1 / 10 ^ 9),
     (sym_le, \<lambda>a b. a \<le> b),
     (''<='', \<lambda>a b. a \<le> b),
     (''<'', \<lambda>a b. a < b)]"

definition OPS_get :: "string option \<Rightarrow> (real \<Rightarrow> real \<Rightarrow> bool) option" where
  \<comment> \<open>\<open>OPS.get(req["comparator"])\<close>; a comparator that is no string is no key\<close>
  "OPS_get c = (case c of None \<Rightarrow> None | Some s \<Rightarrow> map_of OPS s)"

record req =
  rq_comparator :: "string option"
  rq_value :: "real option"
  rq_unit :: "string option"

record test =
  ts_measured_value :: "real option"
  ts_unit :: "string option"

text \<open>The returned dict; a key the source leaves out is \<open>None\<close>.\<close>

record vresult =
  vr_status :: string
  vr_reason :: "string option"
  vr_measured_norm :: "real option"
  vr_target :: "real option"
  vr_unit :: "string option"

datatype exn = TypeError | KeyError

definition validate_row :: "pint \<Rightarrow> req \<Rightarrow> test \<Rightarrow> exn + vresult" where
  "validate_row P rq ts =
    (case normalize P (ts_measured_value ts) (ts_unit ts) (rq_unit rq) of
      None \<Rightarrow>
        Inr \<lparr>vr_status = ''unknown'', vr_reason = Some ''unit_conversion_failed'',
             vr_measured_norm = None, vr_target = None, vr_unit = None\<rparr>
    | Some mv \<Rightarrow>
        (case OPS_get (rq_comparator rq) of
          None \<Rightarrow>
            Inr \<lparr>vr_status = ''unknown'', vr_reason = Some ''invalid_comparator'',
                 vr_measured_norm = None, vr_target = None, vr_unit = None\<rparr>
        | Some op \<Rightarrow>
            (case rq_value rq of
              None \<Rightarrow> Inl TypeError  \<comment> \<open>comparing a number with \<open>None\<close> raises\<close>
            | Some tv \<Rightarrow>
                Inr \<lparr>vr_status = (if op mv tv then ''pass'' else ''fail''),
                     vr_reason = None,
                     vr_measured_norm = Some mv,
                     vr_target = Some tv,
                     vr_unit = rq_unit rq\<rparr>)))"

text \<open>
  The comparator symbols the specification recognises: greater, greater-or-equal (the
  symbol U+2265 and ASCII \<^verbatim>\<open>>=\<close>), equal, less-or-equal (U+2264 and ASCII
  \<^verbatim>\<open><=\<close>) and less.
\<close>

definition recognized :: "string option \<Rightarrow> bool" where
  "recognized c =
    (c = Some ''>'' \<or> c = Some sym_ge \<or> c = Some ''>='' \<or> c = Some ''='' \<or>
     c = Some sym_le \<or> c = Some ''<='' \<or> c = Some ''<'')"

text \<open>
  Modelled from the spec: Pint itself is a library outside the repository.  Section 4.1
  asks for the force units kN and N and the length unit mm, and a failure for units of
  different dimension or unknown units.  This instance serves the concrete examples only.
\<close>

datatype dimension = Force | Length

definition unit_table :: "(string \<times> dimension \<times> real) list" where
  "unit_table = [(''kN'', Force, 1000), (''N'', Force, 1), (''mm'', Length, 1)]"

definition pint_model :: pint where
  "pint_model v from_unit to_unit =
    (case (v, from_unit, to_unit) of
      (Some x, Some f, Some t) \<Rightarrow>
        (case (map_of unit_table f, map_of unit_table t) of
          (Some (d1, k1), Some (d2, k2)) \<Rightarrow> if d1 = d2 then Some (x * k1 / k2) else None
        | _ \<Rightarrow> None)
    | _ \<Rightarrow> None)"

section \<open>Python strings\<close>

text \<open>
  The character classes are those of ASCII: a byte from \<open>0x80\<close> on is in no class and has
  no case, so text whose digits, blanks or letters lie outside ASCII is outside the model.
  \<open>is_space\<close> lists the ASCII characters for which \<open>str.isspace\<close> holds, which are also
  the ones \<open>\s\<close> matches and \<open>str.strip\<close> removes.
\<close>

definition is_digit :: "char \<Rightarrow> bool" where
  "is_digit c = (c \<in> set ''0123456789'')"

definition is_space :: "char \<Rightarrow> bool" where
  "is_space c = (c \<in> set [CHR 0x09, CHR 0x0A, CHR 0x0B, CHR 0x0C, CHR 0x0D,
                            CHR 0x1C, CHR 0x1D, CHR 0x1E, CHR 0x1F, CHR '' ''])"

definition ascii_upper :: string where
  "ascii_upper = ''ABCDEFGHIJKLMNOPQRSTUVWXYZ''"

definition ascii_lower :: string where
  "ascii_lower = ''abcdefghijklmnopqrstuvwxyz''"

definition lower_char :: "char \<Rightarrow> char" where
  "lower_char c = (case map_of (zip ascii_upper ascii_lower) c of None \<Rightarrow> c | Some l \<Rightarrow> l)"

definition is_word :: "char \<Rightarrow> bool" where
  "is_word c = (lower_char c \<in> set ascii_lower \<or> is_digit c \<or> c = CHR ''_'')"

definition lower :: "string \<Rightarrow> string" where
  "lower s = map lower_char s"

definition strip :: "string \<Rightarrow> string" where
  "strip s = rev (dropWhile is_space (rev (dropWhile is_space s)))"

fun startswith :: "string \<Rightarrow> string \<Rightarrow> bool" where
  "startswith s [] = True"
| "startswith [] (p # ps) = False"
| "startswith (c # cs) (p # ps) = (c = p \<and> startswith cs ps)"

text \<open>\<open>sub in s\<close>\<close>

fun contains :: "string \<Rightarrow> string \<Rightarrow> bool" where
  "contains sub [] = (sub = [])"
| "contains sub (c # cs) = (startswith (c # cs) sub \<or> contains sub cs)"

text \<open>\<open>s.replace(old, "")\<close>: the occurrences of \<open>old\<close> are removed from left to right.\<close>

function replace_empty :: "string \<Rightarrow> string \<Rightarrow> string" where
  "replace_empty old [] = []"
| "replace_empty old (c # cs) =
    (if old \<noteq> [] \<and> startswith (c # cs) old
     then replace_empty old (drop (length old) (c # cs))
     else c # replace_empty old cs)"
  by pat_completeness auto
termination
  by (relation "measure (\<lambda>(old, s). length s)") (auto simp: neq_Nil_conv)

text \<open>
  \<open>float\<close> is only applied to a captured group of the shape digits, or digits, a dot and
  digits; on such a string it is the decimal value.
\<close>

definition digit_val :: "char \<Rightarrow> nat" where
  "digit_val c = (case map_of (zip ''0123456789'' [0, 1, 2, 3, 4, 5, 6, 7, 8, 9]) c of
     None \<Rightarrow> 0 | Some d \<Rightarrow> d)"

definition digits_val :: "string \<Rightarrow> nat" where
  "digits_val ds = foldl (\<lambda>n c. 10 * n + digit_val c) 0 ds"

definition float :: "string \<Rightarrow> real" where
  "float s =
    (let ip = takeWhile (\<lambda>c. c \<noteq> CHR ''.'') s;
         fp = drop 1 (dropWhile (\<lambda>c. c \<noteq> CHR ''.'') s)
     in real (digits_val ip) + real (digits_val fp) / 10 ^ length fp)"

section \<open>Regular expressions\<close>

text \<open>
  The patterns of the source use literals, the classes \<open>\d\<close> and \<open>\s\<close>, the dot under
  \<open>re.DOTALL\<close>, sequence, alternation, the greedy operators \<open>?\<close>, \<open>*\<close> and \<open>+\<close> (the
  last two over single characters only), groups, \<open>\b\<close> and \<open>^\<close>.  A literal of a pattern
  compiled with \<open>re.I\<close> is a \<open>ChI\<close>, one of a pattern without the flag a \<open>Ch\<close>.

  The matcher is a backtracking one, as Python's: from a state (the text to the left of the
  position, reversed; the text from the position on; the groups captured so far) it
  returns every way to match, in the order Python tries them.  \<open>re.search\<close> takes the first
  way at the leftmost position that has one.
\<close>

datatype atom = Ch char | ChI char | Digit | Space | Any

datatype rx =
    Eps | Atom atom | Seq rx rx | Alt rx rx | Opt rx | Star atom | Plus atom
  | Group nat rx | WordB | Bol

type_synonym caps = "(nat \<times> string) list"
type_synonym mstate = "string \<times> string \<times> caps"

fun atom_ok :: "atom \<Rightarrow> char \<Rightarrow> bool" where
  "atom_ok (Ch p) c = (c = p)"
| "atom_ok (ChI p) c = (lower_char c = lower_char p)"
| "atom_ok Digit c = is_digit c"
| "atom_ok Space c = is_space c"
| "atom_ok Any c = True"

fun star_run :: "atom \<Rightarrow> string \<Rightarrow> string \<Rightarrow> caps \<Rightarrow> mstate list" where
  "star_run a l [] g = [(l, [], g)]"
| "star_run a l (c # cs) g =
    (if atom_ok a c then star_run a (c # l) cs g @ [(l, c # cs, g)] else [(l, c # cs, g)])"

definition at_boundary :: "string \<Rightarrow> string \<Rightarrow> bool" where
  "at_boundary l s =
    ((case l of [] \<Rightarrow> False | c # cs \<Rightarrow> is_word c) \<noteq>
     (case s of [] \<Rightarrow> False | c # cs \<Rightarrow> is_word c))"

fun rx_run :: "rx \<Rightarrow> mstate \<Rightarrow> mstate list" where
  "rx_run Eps st = [st]"
| "rx_run (Atom a) (l, s, g) =
    (case s of [] \<Rightarrow> [] | c # cs \<Rightarrow> if atom_ok a c then [(c # l, cs, g)] else [])"
| "rx_run (Seq a b) st = concat (map (rx_run b) (rx_run a st))"
| "rx_run (Alt a b) st = rx_run a st @ rx_run b st"
| "rx_run (Opt a) st = rx_run a st @ [st]"
| "rx_run (Star a) (l, s, g) = star_run a l s g"
| "rx_run (Plus a) (l, s, g) =
    (case s of [] \<Rightarrow> [] | c # cs \<Rightarrow> if atom_ok a c then star_run a (c # l) cs g else [])"
| "rx_run (Group n a) (l, s, g) =
    map (\<lambda>(l', s', g'). (l', s', (n, take (length s - length s') s) # g')) (rx_run a (l, s, g))"
| "rx_run WordB (l, s, g) = (if at_boundary l s then [(l, s, g)] else [])"
| "rx_run Bol (l, s, g) = (if l = [] then [(l, s, g)] else [])"

fun search_from :: "rx \<Rightarrow> string \<Rightarrow> string \<Rightarrow> (string \<times> caps) option" where
  "search_from r l s =
    (case rx_run r (l, s, []) of
      (l', s', g) # rest \<Rightarrow> Some (take (length s - length s') s, g)
    | [] \<Rightarrow> (case s of [] \<Rightarrow> None | c # cs \<Rightarrow> search_from r (c # l) cs))"

declare search_from.simps [simp del]

definition re_search :: "rx \<Rightarrow> string \<Rightarrow> (string \<times> caps) option" where
  "re_search r s = search_from r [] s"

definition matches :: "rx \<Rightarrow> string \<Rightarrow> bool" where
  "matches r s = (re_search r s \<noteq> None)"

definition group :: "(string \<times> caps) \<Rightarrow> nat \<Rightarrow> string" where
  "group m k = (if k = 0 then fst m else the (map_of (snd m) k))"

fun lit :: "string \<Rightarrow> rx" where
  "lit [] = Eps"
| "lit (c # cs) = Seq (Atom (Ch c)) (lit cs)"

fun liti :: "string \<Rightarrow> rx" where
  "liti [] = Eps"
| "liti (c # cs) = Seq (Atom (ChI c)) (liti cs)"

fun seqs :: "rx list \<Rightarrow> rx" where
  "seqs [] = Eps"
| "seqs (r # rs) = Seq r (seqs rs)"

fun alts :: "rx list \<Rightarrow> rx" where
  "alts [r] = r"
| "alts (r # rs) = Alt r (alts rs)"
| "alts [] = Eps"

section \<open>core/extract.py\<close>

record req_json =
  rj_metric :: "string option"
  rj_comparator :: "string option"
  rj_value :: "real option"
  rj_unit :: "string option"
  rj_component :: "string option"
  rj_condition :: "string option"

record chat_filter =
  cf_component :: "string option"
  cf_metric :: "string option"
  cf_status :: "string option"
  cf_min_value :: "real option"
  cf_unit :: "string option"

subsection \<open>The fallback requirement extractor\<close>

definition METRIC_ALIASES :: "(string \<times> string) list" where
  "METRIC_ALIASES =
    [(''shear'', ''shear_strength''), (''shear_strength'', ''shear_strength''),
     (''gap'', ''gap''), (''rigidity'', ''rigidity'')]"

definition number :: rx where
  \<comment> \<open>\<^verbatim>\<open>\d+(?:\.\d+)?\<close>\<close>
  "number = seqs [Plus Digit, Opt (seqs [lit ''.'', Plus Digit])]"

text \<open>
  \<open>_regex_req\<close> and its helper \<open>_alias_metric\<close>; every pattern of this function but the
  temperature is compiled with \<open>re.I\<close>.
\<close>

definition word_rx :: "string \<Rightarrow> rx" where
  \<comment> \<open>\<^verbatim>\<open>rf"\b{k}\b"\<close> for a table entry \<open>k\<close>\<close>
  "word_rx k = seqs [WordB, liti k, WordB]"

definition alias_metric :: "string \<Rightarrow> string option" where
  "alias_metric txt = map_option snd (find (\<lambda>(k, v). matches (word_rx k) txt) METRIC_ALIASES)"

definition req_number_unit :: rx where
  \<comment> \<open>\<^verbatim>\<open>(\d+(?:\.\d+)?)\s*(kN|N|mm)\b\<close>\<close>
  "req_number_unit =
    seqs [Group 1 number, Star Space, Group 2 (alts [liti ''kN'', liti ''N'', liti ''mm'']), WordB]"

definition ge_cue :: rx where
  \<comment> \<open>U+2265, then \<^verbatim>\<open>|>=|at\s+least|minimum|min\<close>\<close>
  "ge_cue = alts [liti sym_ge, liti ''>='', seqs [liti ''at'', Plus Space, liti ''least''],
                  liti ''minimum'', liti ''min'']"

definition le_cue :: rx where
  \<comment> \<open>U+2264, then \<^verbatim>\<open>|<=|not\s+exceed|maximum|max\<close>\<close>
  "le_cue = alts [liti sym_le, liti ''<='', seqs [liti ''not'', Plus Space, liti ''exceed''],
                  liti ''maximum'', liti ''max'']"

definition eq_cue :: rx where
  \<comment> \<open>\<^verbatim>\<open>\bequals?\b|^=\b\<close>\<close>
  "eq_cue = alts [seqs [WordB, liti ''equal'', Opt (liti ''s''), WordB], seqs [Bol, liti ''='', WordB]]"

definition gt_cue :: rx where
  \<comment> \<open>\<^verbatim>\<open>\bmore than\b|>\<close>\<close>
  "gt_cue = alts [seqs [WordB, liti ''more than'', WordB], liti ''>'']"

definition lt_cue :: rx where
  \<comment> \<open>\<^verbatim>\<open>\bless than\b|<\<close>\<close>
  "lt_cue = alts [seqs [WordB, liti ''less than'', WordB], liti ''<'']"

definition req_comparator :: "string \<Rightarrow> string option" where
  "req_comparator text =
    (if matches ge_cue text then Some sym_ge
     else if matches le_cue text then Some sym_le
     else if matches eq_cue text then Some ''=''
     else if matches gt_cue text then Some ''>''
     else if matches lt_cue text then Some ''<''
     else None)"

definition req_components :: "string list" where
  "req_components = [''door_frame'', ''panel'', ''b_pillar'', ''roof'', ''hood'', ''door'']"

definition temperature :: rx where
  \<comment> \<open>\<^verbatim>\<open>-?\d+\s*\<close>, U+00B0, \<^verbatim>\<open>\s*C\<close>; no flag\<close>
  "temperature = seqs [Opt (lit ''-''), Plus Digit, Star Space, lit sym_deg, Star Space, lit ''C'']"

definition ambient_cue :: rx where
  \<comment> \<open>\<^verbatim>\<open>ambient|room temperature\<close>\<close>
  "ambient_cue = alts [liti ''ambient'', liti ''room temperature'']"

text \<open>
  Lines 52 to 54: two \<open>if\<close> statements in a row, the second one overwriting \<open>cond\<close>.
  The second search of line 53 is for the same pattern inside a group, so it finds what the
  first found (lemma \<open>matches_Group\<close> below) and \<open>group(1)\<close> is never taken of \<open>None\<close>.
\<close>

definition req_condition :: "string \<Rightarrow> string option" where
  "req_condition text =
    (let cond = (if matches temperature text
                 then map_option (\<lambda>m. group m 1) (re_search (Group 1 temperature) text)
                 else None)
     in if matches ambient_cue text then Some ''ambient'' else cond)"

definition regex_req :: "string \<Rightarrow> req_json" where
  "regex_req text =
    (let m = re_search req_number_unit text;
         (val, unit) = (case m of Some m \<Rightarrow> (Some (float (group m 1)), Some (group m 2))
                        | None \<Rightarrow> (None, None));
         comp = req_comparator text;
         metric = alias_metric text;
         compo = find (\<lambda>c. matches (word_rx c) text) req_components;
         cond = req_condition text
     in \<lparr>rj_metric = metric, rj_comparator = comp, rj_value = val, rj_unit = unit,
         rj_component = compo, rj_condition = cond\<rparr>)"

subsection \<open>The fallback query parser\<close>

text \<open>
  \<open>_regex_filters\<close>.  The unit patterns and the number-with-unit pattern are compiled with
  \<open>re.IGNORECASE\<close>, the three threshold patterns without a flag.
\<close>

definition unit_tok :: rx where
  \<comment> \<open>\<^verbatim>\<open>kn|n|mm\<close>\<close>
  "unit_tok = alts [liti ''kn'', liti ''n'', liti ''mm'']"

definition unit_word :: rx where
  \<comment> \<open>\<^verbatim>\<open>(?:unit|units?)\<close>\<close>
  "unit_word = alts [liti ''unit'', seqs [liti ''unit'', Opt (liti ''s'')]]"

definition unit_patterns :: "rx list" where
  \<comment> \<open>\<^verbatim>\<open>(?:unit|units?)\s+(?:having|with|of|in|is|are)\s*(kn|n|mm)\<close>,
      \<^verbatim>\<open>(?:having|with)\s+unit\s+(kn|n|mm)\<close>,
      \<^verbatim>\<open>(?:in|with)\s+(kn|n|mm)\s+(?:unit|units?)\<close>,
      \<^verbatim>\<open>\b(kn|n|mm)\s+(?:unit|units?)\<close>,
      \<^verbatim>\<open>(?:unit|units?)\s+(?:=|equals?|is)\s*(kn|n|mm)\<close>,
      \<^verbatim>\<open>unit\s+having\s+(kn|n|mm)\<close>,
      \<^verbatim>\<open>with\s+(?:unit\s+)?having\s+(kn|n|mm)\<close>\<close>
  "unit_patterns =
    [seqs [unit_word, Plus Space,
           alts [liti ''having'', liti ''with'', liti ''of'', liti ''in'', liti ''is'', liti ''are''],
           Star Space, Group 1 unit_tok],
     seqs [alts [liti ''having'', liti ''with''], Plus Space, liti ''unit'', Plus Space, Group 1 unit_tok],
     seqs [alts [liti ''in'', liti ''with''], Plus Space, Group 1 unit_tok, Plus Space, unit_word],
     seqs [WordB, Group 1 unit_tok, Plus Space, unit_word],
     seqs [unit_word, Plus Space, alts [liti ''='', seqs [liti ''equal'', Opt (liti ''s'')], liti ''is''],
           Star Space, Group 1 unit_tok],
     seqs [liti ''unit'', Plus Space, liti ''having'', Plus Space, Group 1 unit_tok],
     seqs [liti ''with'', Plus Space, Opt (seqs [liti ''unit'', Plus Space]), liti ''having'',
           Plus Space, Group 1 unit_tok]]"

definition number_unit :: rx where
  \<comment> \<open>\<^verbatim>\<open>(\d+(?:\.\d+)?)\s*(kn|n|mm)\<close>\<close>
  "number_unit = seqs [Group 1 number, Star Space, Group 2 unit_tok]"

definition threshold_patterns :: "rx list" where
  \<comment> \<open>\<^verbatim>\<open>(?:greater than|more than|above|>|G)\s*(\d+(?:\.\d+)?)\<close>,
      \<^verbatim>\<open>(\d+(?:\.\d+)?)\s*(?:or more|or greater|plus)\<close>,
      \<^verbatim>\<open>measured_norm\s*[>G]\s*(\d+(?:\.\d+)?)\<close>, with U+2265 for \<open>G\<close>\<close>
  "threshold_patterns =
    [seqs [alts [lit ''greater than'', lit ''more than'', lit ''above'', lit ''>'', lit sym_ge],
           Star Space, Group 1 number],
     seqs [Group 1 number, Star Space, alts [lit ''or more'', lit ''or greater'', lit ''plus'']],
     seqs [lit ''measured_norm'', Star Space, alts [lit ''>'', lit sym_ge], Star Space, Group 1 number]]"

definition filter_components :: "string list" where
  "filter_components =
    [''door_frame'', ''panel'', ''b_pillar'', ''roof'', ''hood'', ''door'', ''bumper'', ''trunk'',
     ''fender'', ''windshield'', ''quarter_panel'', ''spoiler'', ''mirror'', ''grille'',
     ''tailgate'', ''headlight'', ''antenna'', ''wheel_well'', ''fuel_door'', ''license_plate'',
     ''exhaust'', ''side_skirt'', ''sunroof'', ''dashboard'', ''console'', ''seat'', ''airbag'',
     ''steering'', ''pedal'', ''armrest'', ''cupholder'', ''visor'', ''handle'', ''vent'', ''trim'']"

definition canon_unit :: "string \<Rightarrow> string option" where
  \<comment> \<open>the \<open>if\<close>/\<open>elif\<close> chain on \<open>m.group(k).lower()\<close>, lines 199 to 205 and 214 to 220\<close>
  "canon_unit u =
    (if lower u = ''kn'' then Some ''kN''
     else if lower u = ''n'' then Some ''N''
     else if lower u = ''mm'' then Some ''mm''
     else None)"

text \<open>\<open>for pattern in patterns: m = re.search(pattern, ql); if m: ...; break\<close>\<close>

fun first_match :: "rx list \<Rightarrow> string \<Rightarrow> (string \<times> caps) option" where
  "first_match [] s = None"
| "first_match (r # rs) s = (case re_search r s of Some m \<Rightarrow> Some m | None \<Rightarrow> first_match rs s)"

text \<open>Lines 158 to 170: the status and the query with the status word removed.\<close>

definition filters_status :: "string \<Rightarrow> string option \<times> string" where
  "filters_status ql =
    (if contains ''failed'' ql then (Some ''fail'', replace_empty ''failed'' ql)
     else if contains ''fail'' ql then (Some ''fail'', replace_empty ''fail'' ql)
     else if contains ''passed'' ql then (Some ''pass'', replace_empty ''passed'' ql)
     else if contains ''pass'' ql then (Some ''pass'', replace_empty ''pass'' ql)
     else (None, ql))"

text \<open>Lines 233 to 238, the unit of a threshold without one.\<close>

definition infer_unit :: "string \<Rightarrow> string option" where
  "infer_unit ql =
    (if list_ex (\<lambda>unit. contains unit ql) [''kn'', ''kilo''] then Some ''kN''
     else if contains ''n'' ql \<and> \<not> contains ''mm'' ql then Some ''N''
     else if contains ''mm'' ql then Some ''mm''
     else None)"

text \<open>Lines 195 to 206, and lines 209 to 239 for \<open>min_value\<close> and \<open>unit\<close>.\<close>

definition filters_unit_only :: "string \<Rightarrow> string option" where
  "filters_unit_only ql =
    (case first_match unit_patterns ql of
      Some m \<Rightarrow> canon_unit (group m 1)
    | None \<Rightarrow> None)"

definition filters_value_unit :: "string \<Rightarrow> real option \<times> string option" where
  "filters_value_unit ql =
    (case filters_unit_only ql of
      Some unit \<Rightarrow> (None, Some unit)
    | None \<Rightarrow>
        (case re_search number_unit ql of
          Some m \<Rightarrow> (Some (float (group m 1)), canon_unit (group m 2))
        | None \<Rightarrow>
            (case first_match threshold_patterns ql of
              Some m \<Rightarrow> (Some (float (group m 1)), infer_unit ql)
            | None \<Rightarrow> (None, None))))"

definition regex_filters :: "string \<Rightarrow> chat_filter" where
  "regex_filters q =
    (let ql = lower q;
         (status, status_processed_query) = filters_status ql;
         component = find (\<lambda>c. contains c status_processed_query) filter_components;
         metric = map_option snd (find (\<lambda>(m, v). contains m ql) METRIC_ALIASES);
         (min_value, unit) = filters_value_unit ql
     in \<lparr>cf_component = component, cf_metric = metric, cf_status = status,
         cf_min_value = min_value, cf_unit = unit\<rparr>)"

subsection \<open>The reasoning backend and its three callers\<close>

text \<open>
  What lies outside the repository is a parameter of the model, collected in \<open>env\<close>:
  what the LLM provider does when it is called (\<open>backend\<close>), the JSON decoding and the
  pydantic validation of a response (\<open>loads_req\<close>, \<open>loads_filter\<close>: \<open>None\<close> when
  \<open>json.loads\<close> or the schema raises), the value of \<open>ReqJSON().model_dump()\<close>, which
  depends on the pydantic release, \<open>json.dumps\<close> of the facts (\<open>None\<close> when it raises)
  and the two float formats of the explanation template.
\<close>

datatype reply =
    Unavailable  \<comment> \<open>\<open>_have_llm()\<close> is false\<close>
  | ChatError  \<comment> \<open>\<open>_llm_chat\<close> raises\<close>
  | Content "string option"  \<comment> \<open>\<open>_llm_chat\<close> returns a string, or \<open>None\<close>\<close>

record facts =
  fa_status :: "string option"
  fa_measured_norm :: "real option"
  fa_target :: "real option"
  fa_unit :: "string option"

record env =
  backend :: reply
  loads_req :: "string \<Rightarrow> req_json option"
  loads_filter :: "string \<Rightarrow> chat_filter option"
  ReqJSON_empty :: "exn + req_json"
  dumps :: "facts \<Rightarrow> string option"
  format_3g :: "real \<Rightarrow> string"
  format_num :: "real \<Rightarrow> string"

definition json_object :: rx where
  \<comment> \<open>\<^verbatim>\<open>\{.*\}\<close> with \<open>re.DOTALL\<close>\<close>
  "json_object = seqs [lit ''{'', Star Any, lit ''}'']"

definition json_text :: "string \<Rightarrow> string" where
  \<comment> \<open>the argument of \<open>json.loads\<close>: the matched object, else the whole content\<close>
  "json_text content =
    (case re_search json_object content of Some m \<Rightarrow> group m 0 | None \<Rightarrow> content)"

definition or_empty :: "string option \<Rightarrow> string" where
  \<comment> \<open>\<open>x or ""\<close>\<close>
  "or_empty x = (case x of None \<Rightarrow> [] | Some s \<Rightarrow> s)"

definition extract_requirement_text_to_json :: "env \<Rightarrow> string option \<Rightarrow> exn + req_json" where
  "extract_requirement_text_to_json E text0 =
    (let text = strip (or_empty text0) in
     if text = [] then ReqJSON_empty E
     else
       (case backend E of
         Unavailable \<Rightarrow> Inr (regex_req text)
       | ChatError \<Rightarrow> Inr (regex_req text)
       | Content None \<Rightarrow> Inr (regex_req text)
       | Content (Some content) \<Rightarrow>
           (case loads_req E (json_text content) of
             Some d \<Rightarrow> Inr d
           | None \<Rightarrow> Inr (regex_req text))))"

definition pystr :: "string option \<Rightarrow> string" where
  \<comment> \<open>a string or \<open>None\<close> inside an f-string\<close>
  "pystr x = (case x of None \<Rightarrow> ''None'' | Some s \<Rightarrow> s)"

definition template :: "env \<Rightarrow> facts \<Rightarrow> exn + string" where
  \<comment> \<open>lines 116 to 123; \<open>format(None, ".3g")\<close> raises\<close>
  "template E f =
    (let st = (case fa_status f of None \<Rightarrow> ''unknown'' | Some s \<Rightarrow> s);
         target = (case fa_target f of None \<Rightarrow> ''None'' | Some t \<Rightarrow> format_num E t)
     in
     if st = ''pass'' then
       (case fa_measured_norm f of
         None \<Rightarrow> Inl TypeError
       | Some mn \<Rightarrow>
           Inr (''Pass: measured '' @ format_3g E mn @ '' '' @ pystr (fa_unit f) @
                '' meets target '' @ target @ '' '' @ pystr (fa_unit f) @ ''.''))
     else if st = ''fail'' then
       (case fa_measured_norm f of
         None \<Rightarrow> Inl TypeError
       | Some mn \<Rightarrow>
           Inr (''Fail: measured '' @ format_3g E mn @ '' '' @ pystr (fa_unit f) @
                '' is below/above target '' @ target @ '' '' @ pystr (fa_unit f) @ ''.''))
     else Inr ''Unknown: missing unit/comparator/data.'')"

definition explain_from_facts :: "env \<Rightarrow> facts \<Rightarrow> exn + string" where
  "explain_from_facts E f =
    (case backend E of
      Unavailable \<Rightarrow> template E f
    | ChatError \<Rightarrow>
        (case dumps E f of None \<Rightarrow> Inl TypeError | Some prompt \<Rightarrow> Inr ''Explanation unavailable.'')
    | Content None \<Rightarrow>
        (case dumps E f of None \<Rightarrow> Inl TypeError | Some prompt \<Rightarrow> Inr ''Explanation unavailable.'')
    | Content (Some content) \<Rightarrow>
        (case dumps E f of None \<Rightarrow> Inl TypeError | Some prompt \<Rightarrow> Inr (strip content)))"

definition parse_query_to_filters :: "env \<Rightarrow> string option \<Rightarrow> chat_filter" where
  "parse_query_to_filters E q =
    (case backend E of
      Unavailable \<Rightarrow> regex_filters (or_empty q)
    | ChatError \<Rightarrow> regex_filters (or_empty q)
    | Content None \<Rightarrow> regex_filters (or_empty q)
    | Content (Some content) \<Rightarrow>
        (case loads_filter E (json_text content) of
          Some d \<Rightarrow> d
        | None \<Rightarrow> regex_filters (or_empty q)))"

text \<open>
  The ways a backend call fails: the provider is unavailable, the chat call raises, or the
  response is no string or holds no JSON object that decodes and validates.
\<close>

definition backend_failed :: "env \<Rightarrow> (string \<Rightarrow> 'a option) \<Rightarrow> bool" where
  "backend_failed E loads =
    (case backend E of
      Unavailable \<Rightarrow> True
    | ChatError \<Rightarrow> True
    | Content None \<Rightarrow> True
    | Content (Some content) \<Rightarrow> loads (json_text content) = None)"

text \<open>
  The unit inference as claim C7 words it: a unit token somewhere in the query, kN before N
  before mm.  Containment is the most generous reading of "token occurs".
\<close>

definition spec_infer_unit :: "string \<Rightarrow> string option" where
  "spec_infer_unit ql =
    (if contains ''kn'' ql then Some ''kN''
     else if contains ''n'' ql then Some ''N''
     else if contains ''mm'' ql then Some ''mm''
     else None)"

text \<open>An environment for the concrete examples: no backend, pydantic refusing \<open>ReqJSON()\<close>.\<close>

definition env_unavailable :: env where
  "env_unavailable =
    \<lparr>backend = Unavailable, loads_req = (\<lambda>s. None), loads_filter = (\<lambda>s. None),
     ReqJSON_empty = Inl TypeError, dumps = (\<lambda>f. Some []),
     format_3g = (\<lambda>x. []), format_num = (\<lambda>x. [])\<rparr>"

section \<open>app/main.py: applying a chat filter\<close>

text \<open>
  The result table is a pandas DataFrame built from the list of row dicts: its columns
  are the keys that occur in some dict, and a row that lacks a key holds a missing cell
  (\<open>None\<close> here) in that column.  Only the cells the filter reads are kept.
\<close>

record row =
  row_test_id :: string
  row_component :: "string option"
  row_status :: string
  row_unit :: "string option"
  row_measured_norm :: "real option"

record frame =
  fr_columns :: "string list"
  fr_rows :: "row list"

definition truthy_str :: "string option \<Rightarrow> bool" where
  \<comment> \<open>\<open>if f.get(key):\<close> for a string: neither \<open>None\<close> nor empty\<close>
  "truthy_str s = (case s of None \<Rightarrow> False | Some x \<Rightarrow> x \<noteq> [])"

definition truthy_num :: "real option \<Rightarrow> bool" where
  \<comment> \<open>\<open>if f.get(key):\<close> for a number: neither \<open>None\<close> nor zero\<close>
  "truthy_num v = (case v of None \<Rightarrow> False | Some x \<Rightarrow> x \<noteq> 0)"

definition keep :: "(row \<Rightarrow> bool) \<Rightarrow> frame \<Rightarrow> frame" where
  \<comment> \<open>boolean-mask indexing \<open>vf[mask]\<close>: same columns, the rows of the mask in order\<close>
  "keep m vf = vf\<lparr>fr_rows := filter m (fr_rows vf)\<rparr>"

definition meets :: "real option \<Rightarrow> real \<Rightarrow> bool" where
  \<comment> \<open>\<open>cell >= min_val\<close>; a missing cell compares false\<close>
  "meets cell min_val = (case cell of None \<Rightarrow> False | Some x \<Rightarrow> x \<ge> min_val)"

definition converts :: "pint \<Rightarrow> string \<Rightarrow> real \<Rightarrow> row \<Rightarrow> bool" where
  \<comment> \<open>the body of the conversion loop: a raising conversion skips the row\<close>
  "converts P target_unit min_val r =
    (case normalize P (row_measured_norm r) (row_unit r) (Some target_unit) of
      None \<Rightarrow> False
    | Some converted_measured \<Rightarrow> converted_measured \<ge> min_val)"

definition filter_component :: "(string \<Rightarrow> string option \<Rightarrow> bool) \<Rightarrow> chat_filter \<Rightarrow> frame \<Rightarrow> frame" where
  \<comment> \<open>\<open>M\<close> is pandas' \<open>str.contains(pat, case=False, na=False)\<close> on one cell\<close>
  "filter_component M f vf =
    (if truthy_str (cf_component f) then keep (\<lambda>r. M (the (cf_component f)) (row_component r)) vf
     else vf)"

definition filter_status :: "chat_filter \<Rightarrow> frame \<Rightarrow> frame" where
  "filter_status f vf =
    (if truthy_str (cf_status f) then keep (\<lambda>r. row_status r = the (cf_status f)) vf else vf)"

definition filter_unit :: "chat_filter \<Rightarrow> frame \<Rightarrow> frame" where
  "filter_unit f vf =
    (if truthy_str (cf_unit f) \<and> \<not> truthy_num (cf_min_value f) then
       (if ''unit'' \<in> set (fr_columns vf) then keep (\<lambda>r. row_unit r = cf_unit f) vf else vf)
     else vf)"

definition filter_min_value :: "pint \<Rightarrow> chat_filter \<Rightarrow> frame \<Rightarrow> exn + frame" where
  "filter_min_value P f vf =
    (if truthy_num (cf_min_value f) then
       (if truthy_str (cf_unit f) then
          (if ''measured_norm'' \<in> set (fr_columns vf) then
             (let min_val = the (cf_min_value f); target_unit = the (cf_unit f) in
              if ''unit'' \<notin> set (fr_columns vf) then Inl KeyError
              else if list_ex (\<lambda>r. row_unit r = Some target_unit) (fr_rows vf) then
                Inr (keep (\<lambda>r. row_unit r = Some target_unit \<and> meets (row_measured_norm r) min_val) vf)
              else Inr (keep (converts P target_unit min_val) vf))
           else Inr vf)
        else
          (if ''measured_norm'' \<in> set (fr_columns vf) then
             Inr (keep (\<lambda>r. meets (row_measured_norm r) (the (cf_min_value f))) vf)
           else Inr vf))
     else Inr vf)"

definition apply_chat_filters ::
  "pint \<Rightarrow> (string \<Rightarrow> string option \<Rightarrow> bool) \<Rightarrow> chat_filter \<Rightarrow> frame \<Rightarrow> exn + frame" where
  "apply_chat_filters P M f out =
    filter_min_value P f (filter_unit f (filter_status f (filter_component M f out)))"

text \<open>
  The claim's reading of the filter with a minimum and a unit, over the rows it is applied
  to: the rows of that unit that meet the threshold if some row has the unit, else the
  rows whose converted measurement meets it.
\<close>

definition spec_min_unit_rows :: "pint \<Rightarrow> real \<Rightarrow> string \<Rightarrow> row list \<Rightarrow> row list" where
  "spec_min_unit_rows P min_val u rows =
    (if list_ex (\<lambda>r. row_unit r = Some u) rows
     then filter (\<lambda>r. row_unit r = Some u \<and> meets (row_measured_norm r) min_val) rows
     else filter (converts P u min_val) rows)"

section \<open>Properties of validate_row\<close>

lemma sym_distinct:
  "sym_ge \<noteq> sym_le" "sym_ge \<noteq> ''>''" "sym_ge \<noteq> ''>=''" "sym_ge \<noteq> ''=''" "sym_ge \<noteq> ''<=''"
  "sym_ge \<noteq> ''<''" "sym_le \<noteq> ''>''" "sym_le \<noteq> ''>=''" "sym_le \<noteq> ''=''" "sym_le \<noteq> ''<=''"
  "sym_le \<noteq> ''<''"
  by (simp_all add: sym_ge_def sym_le_def)

lemma OPS_get_recognized: "OPS_get c \<noteq> None \<longleftrightarrow> recognized c"
  by (cases c) (auto simp: OPS_get_def OPS_def recognized_def sym_distinct)

lemma OPS_get_None_iff: "OPS_get c = None \<longleftrightarrow> \<not> recognized c"
  using OPS_get_recognized [of c] by blast

text \<open>
  C1.  \<open>validate_row\<close> returns status \<open>unknown\<close> exactly when the conversion of the
  measured value into the requirement's unit fails or the comparator is not a recognised
  symbol, and a result with status \<open>pass\<close> or \<open>fail\<close> is returned only after a successful
  normalisation with a recognised comparator.
\<close>

theorem validate_row_unknown_iff:
  "((\<exists>r. validate_row P rq ts = Inr r \<and> vr_status r = ''unknown'') \<longleftrightarrow>
      (normalize P (ts_measured_value ts) (ts_unit ts) (rq_unit rq) = None \<or>
       \<not> recognized (rq_comparator rq))) \<and>
   (\<forall>r. validate_row P rq ts = Inr r \<and> (vr_status r = ''pass'' \<or> vr_status r = ''fail'') \<longrightarrow>
      normalize P (ts_measured_value ts) (ts_unit ts) (rq_unit rq) \<noteq> None \<and>
      recognized (rq_comparator rq))"
proof (cases "normalize P (ts_measured_value ts) (ts_unit ts) (rq_unit rq)")
  case None
  then show ?thesis by (simp add: validate_row_def)
next
  case (Some mv)
  show ?thesis
  proof (cases "OPS_get (rq_comparator rq)")
    case None
    then have nrec: "\<not> recognized (rq_comparator rq)"
      using OPS_get_None_iff [of "rq_comparator rq"] by simp
    from Some None nrec show ?thesis
      by (simp add: validate_row_def)
  next
    case (Some op)
    then have rec: "recognized (rq_comparator rq)"
      using OPS_get_recognized [of "rq_comparator rq"] by simp
    from Some \<open>normalize P (ts_measured_value ts) (ts_unit ts) (rq_unit rq) = Some mv\<close> rec
    show ?thesis
      by (cases "rq_value rq") (auto simp: validate_row_def)
  qed
qed

lemma pint_model_N_kN: "pint_model (Some x) (Some ''N'') (Some ''kN'') = Some (x / 1000)"
  by (simp add: pint_model_def unit_table_def)


lemma pint_model_kN_mm: "pint_model (Some x) (Some ''kN'') (Some ''mm'') = None"
  by (simp add: pint_model_def unit_table_def)

lemma recognized_examples: "recognized (Some sym_ge)" "\<not> recognized (Some ''?'')" "\<not> recognized None"
  by (simp_all add: recognized_def sym_ge_def sym_le_def)

lemma OPS_get_ge: "OPS_get (Some sym_ge) = Some (\<lambda>a b. a \<ge> b)"
  by (simp add: OPS_get_def OPS_def sym_distinct)

theorem validate_row_unknown_iff_witness:
  "(\<exists>r. validate_row pint_model
         \<lparr>rq_comparator = Some ''?'', rq_value = Some 1, rq_unit = Some ''N''\<rparr>
         \<lparr>ts_measured_value = Some 1, ts_unit = Some ''N''\<rparr> = Inr r \<and>
       vr_status r = ''unknown'') \<and>
   normalize pint_model (Some 6000) (Some ''N'') (Some ''kN'') \<noteq> None \<and>
   recognized (Some sym_ge)"
proof -
  let ?rq = "\<lparr>rq_comparator = Some ''?'', rq_value = Some 1, rq_unit = Some ''N''\<rparr>"
  let ?ts = "\<lparr>ts_measured_value = Some 1, ts_unit = Some ''N''\<rparr>"
  let ?rq' = "\<lparr>rq_comparator = Some sym_ge, rq_value = Some (11 / 2), rq_unit = Some ''kN''\<rparr>"
  let ?ts' = "\<lparr>ts_measured_value = Some 6000, ts_unit = Some ''N''\<rparr>"
  have "\<not> recognized (rq_comparator ?rq)"
    by (simp add: recognized_examples)
  then have a: "\<exists>r. validate_row pint_model ?rq ?ts = Inr r \<and> vr_status r = ''unknown''"
    using validate_row_unknown_iff [of pint_model ?rq ?ts] by blast
  have "validate_row pint_model ?rq' ?ts' =
      Inr \<lparr>vr_status = ''pass'', vr_reason = None, vr_measured_norm = Some 6,
           vr_target = Some (11 / 2), vr_unit = Some ''kN''\<rparr>"
    by (simp add: validate_row_def normalize_def pint_model_N_kN OPS_get_ge)
  then have "normalize pint_model (ts_measured_value ?ts') (ts_unit ?ts') (rq_unit ?rq') \<noteq> None \<and>
      recognized (rq_comparator ?rq')"
    using validate_row_unknown_iff [of pint_model ?rq' ?ts'] by simp
  with a show ?thesis by simp
qed

text \<open>
  C2.  For the requirement (\<open>\<ge>\<close>, 5.5, kN): a test measuring 6000 N passes and one
  measuring 5000 N fails, with the converted measurement as \<open>measured_norm\<close>, target 5.5
  and unit kN.  Pint's float arithmetic is not modelled; the statement holds for every
  conversion whose results lie within 1/2 of the exact values 6 and 5, which covers any
  rounding.
\<close>

theorem validate_row_examples:
  assumes "P (Some 6000) (Some ''N'') (Some ''kN'') = Some m6" and "\<bar>m6 - 6\<bar> < 1 / 2"
    and "P (Some 5000) (Some ''N'') (Some ''kN'') = Some m5" and "\<bar>m5 - 5\<bar> < 1 / 2"
  shows "validate_row P
           \<lparr>rq_comparator = Some sym_ge, rq_value = Some (11 / 2), rq_unit = Some ''kN''\<rparr>
           \<lparr>ts_measured_value = Some 6000, ts_unit = Some ''N''\<rparr> =
         Inr \<lparr>vr_status = ''pass'', vr_reason = None, vr_measured_norm = Some m6,
              vr_target = Some (11 / 2), vr_unit = Some ''kN''\<rparr> \<and>
         validate_row P
           \<lparr>rq_comparator = Some sym_ge, rq_value = Some (11 / 2), rq_unit = Some ''kN''\<rparr>
           \<lparr>ts_measured_value = Some 5000, ts_unit = Some ''N''\<rparr> =
         Inr \<lparr>vr_status = ''fail'', vr_reason = None, vr_measured_norm = Some m5,
              vr_target = Some (11 / 2), vr_unit = Some ''kN''\<rparr>"
proof -
  from assms(2) have "11 / 2 \<le> m6" by linarith
  moreover from assms(4) have "\<not> 11 / 2 \<le> m5" by linarith
  ultimately show ?thesis
    using assms(1,3) by (simp add: validate_row_def normalize_def OPS_get_ge)
qed

theorem validate_row_examples_witness:
  "validate_row pint_model
     \<lparr>rq_comparator = Some sym_ge, rq_value = Some (11 / 2), rq_unit = Some ''kN''\<rparr>
     \<lparr>ts_measured_value = Some 6000, ts_unit = Some ''N''\<rparr> =
   Inr \<lparr>vr_status = ''pass'', vr_reason = None, vr_measured_norm = Some 6,
        vr_target = Some (11 / 2), vr_unit = Some ''kN''\<rparr> \<and>
   validate_row pint_model
     \<lparr>rq_comparator = Some sym_ge, rq_value = Some (11 / 2), rq_unit = Some ''kN''\<rparr>
     \<lparr>ts_measured_value = Some 5000, ts_unit = Some ''N''\<rparr> =
   Inr \<lparr>vr_status = ''fail'', vr_reason = None, vr_measured_norm = Some 5,
        vr_target = Some (11 / 2), vr_unit = Some ''kN''\<rparr>"
proof -
  have a: "pint_model (Some 6000) (Some ''N'') (Some ''kN'') = Some 6"
    by (simp add: pint_model_N_kN)
  have b: "pint_model (Some 5000) (Some ''N'') (Some ''kN'') = Some 5"
    by (simp add: pint_model_N_kN)
  show ?thesis
    using validate_row_examples [of pint_model 6 5] a b by simp
qed




section \<open>Properties of the chat filter\<close>

lemma keep_columns: "fr_columns (keep m vf) = fr_columns vf"
  by (simp add: keep_def)

lemma keep_rows: "fr_rows (keep m vf) = filter m (fr_rows vf)"
  by (simp add: keep_def)

lemma filter_component_columns: "fr_columns (filter_component M f vf) = fr_columns vf"
  by (simp add: filter_component_def keep_columns)

lemma filter_status_columns: "fr_columns (filter_status f vf) = fr_columns vf"
  by (simp add: filter_status_def keep_columns)

lemma filter_unit_skipped: "truthy_num (cf_min_value f) \<Longrightarrow> filter_unit f vf = vf"
  by (simp add: filter_unit_def)

lemma filter_min_value_unit:
  assumes "cf_min_value f = Some m" and "m \<noteq> 0" and "cf_unit f = Some u" and "u \<noteq> []"
  shows "filter_min_value P f vf =
    (if ''measured_norm'' \<in> set (fr_columns vf) then
       (if ''unit'' \<in> set (fr_columns vf)
        then Inr (vf\<lparr>fr_rows := spec_min_unit_rows P m u (fr_rows vf)\<rparr>) else Inl KeyError)
     else Inr vf)"
  using assms
  by (simp add: filter_min_value_def truthy_num_def truthy_str_def spec_min_unit_rows_def keep_def)

text \<open>
  C9 as stated fails: a table whose rows are all \<open>unknown\<close> has no \<open>measured_norm\<close>
  column, and the filter (minimum 5, unit kN) then keeps every row, where the claim
  excludes each row because its conversion raises.
\<close>

theorem min_value_unit_filter_counterexample:
  "apply_chat_filters pint_model (\<lambda>pat cell. True)
     \<lparr>cf_component = None, cf_metric = None, cf_status = None,
      cf_min_value = Some 5, cf_unit = Some ''kN''\<rparr>
     \<lparr>fr_columns = [''test_id'', ''req_id'', ''component'', ''status'', ''reason'', ''explanation''],
      fr_rows = [\<lparr>row_test_id = ''T1'', row_component = Some ''door'', row_status = ''unknown'',
                  row_unit = None, row_measured_norm = None\<rparr>]\<rparr> =
   Inr \<lparr>fr_columns = [''test_id'', ''req_id'', ''component'', ''status'', ''reason'', ''explanation''],
        fr_rows = [\<lparr>row_test_id = ''T1'', row_component = Some ''door'', row_status = ''unknown'',
                    row_unit = None, row_measured_norm = None\<rparr>]\<rparr> \<and>
   spec_min_unit_rows pint_model 5 ''kN''
     [\<lparr>row_test_id = ''T1'', row_component = Some ''door'', row_status = ''unknown'',
       row_unit = None, row_measured_norm = None\<rparr>] = []"
  by (simp add: apply_chat_filters_def filter_min_value_def filter_unit_def filter_status_def
      filter_component_def truthy_num_def truthy_str_def spec_min_unit_rows_def converts_def
      normalize_def pint_model_def)

text \<open>
  C9, amended.  For a filter with a non-zero \<open>min_value\<close> and a non-empty \<open>unit\<close>, applied
  to a table that has the columns \<open>measured_norm\<close> and \<open>unit\<close>: among the rows left by the
  component and status filters, if some row has the filter's unit the survivors are
  exactly the rows of that unit whose \<open>measured_norm\<close> is at least \<open>min_value\<close>; only if
  none has it, the survivors are the rows whose measurement Pint converts into the
  filter's unit with a result that meets the threshold.  A row whose conversion raises is
  left out, and the operation returns a table.  Without a \<open>measured_norm\<close> column the
  filter keeps every row.
\<close>

theorem min_value_unit_filter:
  assumes "cf_min_value f = Some m" and "m \<noteq> 0" and "cf_unit f = Some u" and "u \<noteq> []"
  shows "(''measured_norm'' \<in> set (fr_columns out) \<and> ''unit'' \<in> set (fr_columns out) \<longrightarrow>
      apply_chat_filters P M f out =
        Inr ((filter_status f (filter_component M f out))
          \<lparr>fr_rows := spec_min_unit_rows P m u
             (fr_rows (filter_status f (filter_component M f out)))\<rparr>)) \<and>
    (''measured_norm'' \<notin> set (fr_columns out) \<longrightarrow>
      apply_chat_filters P M f out = Inr (filter_status f (filter_component M f out)))"
proof -
  let ?vf = "filter_status f (filter_component M f out)"
  have cols: "fr_columns ?vf = fr_columns out"
    by (simp add: filter_status_columns filter_component_columns)
  from assms(1,2) have "truthy_num (cf_min_value f)"
    by (simp add: truthy_num_def)
  then have "apply_chat_filters P M f out = filter_min_value P f ?vf"
    by (simp add: apply_chat_filters_def filter_unit_skipped)
  then show ?thesis
    using filter_min_value_unit [OF assms, of P ?vf] cols by simp
qed

theorem min_value_unit_filter_witness:
  "apply_chat_filters pint_model (\<lambda>pat cell. True)
     \<lparr>cf_component = None, cf_metric = None, cf_status = None,
      cf_min_value = Some 100, cf_unit = Some ''N''\<rparr>
     \<lparr>fr_columns = [''test_id'', ''status'', ''measured_norm'', ''target'', ''unit''],
      fr_rows =
        [\<lparr>row_test_id = ''T1'', row_component = None, row_status = ''pass'',
          row_unit = Some ''kN'', row_measured_norm = Some 6\<rparr>,
         \<lparr>row_test_id = ''T2'', row_component = None, row_status = ''pass'',
          row_unit = Some ''mm'', row_measured_norm = Some 300\<rparr>,
         \<lparr>row_test_id = ''T3'', row_component = None, row_status = ''unknown'',
          row_unit = None, row_measured_norm = None\<rparr>]\<rparr> =
   Inr \<lparr>fr_columns = [''test_id'', ''status'', ''measured_norm'', ''target'', ''unit''],
        fr_rows =
          [\<lparr>row_test_id = ''T1'', row_component = None, row_status = ''pass'',
            row_unit = Some ''kN'', row_measured_norm = Some 6\<rparr>]\<rparr>"
proof -
  let ?f = "\<lparr>cf_component = None, cf_metric = None, cf_status = None,
      cf_min_value = Some 100, cf_unit = Some ''N''\<rparr>"
  have "cf_min_value ?f = Some 100" "(100::real) \<noteq> 0" "cf_unit ?f = Some ''N''" "''N'' \<noteq> []"
    by simp_all
  from min_value_unit_filter [OF this]
  show ?thesis
    by (simp add: filter_status_def filter_component_def truthy_str_def spec_min_unit_rows_def
        converts_def normalize_def pint_model_def unit_table_def)
qed

section \<open>Properties of the three callers of the backend\<close>

lemma regex_filters_failed_door:
  "regex_filters ''show failed door tests'' =
    \<lparr>cf_component = Some ''door'', cf_metric = None, cf_status = Some ''fail'',
     cf_min_value = None, cf_unit = None\<rparr>"
  by code_simp

lemma regex_filters_unit_kN:
  "regex_filters ''show tests with unit kN'' =
    \<lparr>cf_component = None, cf_metric = None, cf_status = None,
     cf_min_value = None, cf_unit = Some ''kN''\<rparr>"
  by code_simp

lemma regex_filters_failed_100_N:
  "regex_filters ''show failed tests > 100 N'' =
    \<lparr>cf_component = None, cf_metric = None, cf_status = Some ''fail'',
     cf_min_value = Some 100, cf_unit = Some ''N''\<rparr>"
  by code_simp

lemma parse_unavailable:
  "backend E = Unavailable \<Longrightarrow> parse_query_to_filters E (Some q) = regex_filters q"
  by (simp add: parse_query_to_filters_def or_empty_def)

text \<open>
  C6.  With the backend unavailable, the three example queries are parsed into exactly the
  filters the specification lists, every other field being \<open>None\<close>.
\<close>

theorem parse_query_examples:
  assumes "backend E = Unavailable"
  shows "parse_query_to_filters E (Some ''show failed door tests'') =
      \<lparr>cf_component = Some ''door'', cf_metric = None, cf_status = Some ''fail'',
       cf_min_value = None, cf_unit = None\<rparr> \<and>
    parse_query_to_filters E (Some ''show tests with unit kN'') =
      \<lparr>cf_component = None, cf_metric = None, cf_status = None,
       cf_min_value = None, cf_unit = Some ''kN''\<rparr> \<and>
    parse_query_to_filters E (Some ''show failed tests > 100 N'') =
      \<lparr>cf_component = None, cf_metric = None, cf_status = Some ''fail'',
       cf_min_value = Some 100, cf_unit = Some ''N''\<rparr>"
  using assms
  by (simp only: parse_unavailable regex_filters_failed_door regex_filters_unit_kN
      regex_filters_failed_100_N simp_thms)

theorem parse_query_examples_witness:
  "parse_query_to_filters env_unavailable (Some ''show failed door tests'') =
      \<lparr>cf_component = Some ''door'', cf_metric = None, cf_status = Some ''fail'',
       cf_min_value = None, cf_unit = None\<rparr> \<and>
    parse_query_to_filters env_unavailable (Some ''show tests with unit kN'') =
      \<lparr>cf_component = None, cf_metric = None, cf_status = None,
       cf_min_value = None, cf_unit = Some ''kN''\<rparr> \<and>
    parse_query_to_filters env_unavailable (Some ''show failed tests > 100 N'') =
      \<lparr>cf_component = None, cf_metric = None, cf_status = Some ''fail'',
       cf_min_value = Some 100, cf_unit = Some ''N''\<rparr>"
proof -
  have "backend env_unavailable = Unavailable"
    by (simp add: env_unavailable_def)
  then show ?thesis
    by (rule parse_query_examples)
qed

text \<open>
  C3 as stated fails for \<open>explain_from_facts\<close>: when the chat call raises, the function
  returns a fixed string, not what its deterministic template returns.
\<close>

theorem backend_failure_counterexample:
  "explain_from_facts (env_unavailable\<lparr>backend := ChatError\<rparr>)
     \<lparr>fa_status = Some ''unknown'', fa_measured_norm = None, fa_target = None, fa_unit = None\<rparr> =
     Inr ''Explanation unavailable.'' \<and>
   template (env_unavailable\<lparr>backend := ChatError\<rparr>)
     \<lparr>fa_status = Some ''unknown'', fa_measured_norm = None, fa_target = None, fa_unit = None\<rparr> =
     Inr ''Unknown: missing unit/comparator/data.''"
  by (simp add: explain_from_facts_def template_def env_unavailable_def)

text \<open>
  C3, amended.  When the backend call fails in any of the three ways,
  \<open>extract_requirement_text_to_json\<close> on a text that is not blank returns what \<open>_regex_req\<close>
  returns on the stripped text, and \<open>parse_query_to_filters\<close> what \<open>_regex_filters\<close>
  returns; neither propagates the failure.  A blank text never reaches the backend.
  \<open>explain_from_facts\<close> returns its template only when the backend is unavailable; when
  the chat call raises or returns no string it returns "Explanation unavailable.".
\<close>

theorem backend_failure:
  "(backend_failed E (loads_req E) \<and> strip (or_empty text) \<noteq> [] \<longrightarrow>
      extract_requirement_text_to_json E text = Inr (regex_req (strip (or_empty text)))) \<and>
   (strip (or_empty text) = [] \<longrightarrow> extract_requirement_text_to_json E text = ReqJSON_empty E) \<and>
   (backend_failed E (loads_filter E) \<longrightarrow>
      parse_query_to_filters E q = regex_filters (or_empty q)) \<and>
   (backend E = Unavailable \<longrightarrow> explain_from_facts E f = template E f) \<and>
   ((backend E = ChatError \<or> backend E = Content None) \<and> dumps E f \<noteq> None \<longrightarrow>
      explain_from_facts E f = Inr ''Explanation unavailable.'')"
proof -
  have a: "backend_failed E (loads_req E) \<Longrightarrow> strip (or_empty text) \<noteq> [] \<Longrightarrow>
      extract_requirement_text_to_json E text = Inr (regex_req (strip (or_empty text)))"
    by (auto simp: backend_failed_def extract_requirement_text_to_json_def Let_def
        split: reply.splits option.splits)
  have b: "strip (or_empty text) = [] \<Longrightarrow> extract_requirement_text_to_json E text = ReqJSON_empty E"
    by (simp add: extract_requirement_text_to_json_def)
  have c: "backend_failed E (loads_filter E) \<Longrightarrow>
      parse_query_to_filters E q = regex_filters (or_empty q)"
    by (auto simp: backend_failed_def parse_query_to_filters_def split: reply.splits option.splits)
  have d: "backend E = Unavailable \<Longrightarrow> explain_from_facts E f = template E f"
    by (simp add: explain_from_facts_def)
  have e: "(backend E = ChatError \<or> backend E = Content None) \<Longrightarrow> dumps E f \<noteq> None \<Longrightarrow>
      explain_from_facts E f = Inr ''Explanation unavailable.''"
    by (auto simp: explain_from_facts_def)
  from a b c d e show ?thesis by blast
qed

theorem backend_failure_witness:
  "extract_requirement_text_to_json (env_unavailable\<lparr>backend := ChatError\<rparr>) (Some ''gap max 3 mm'') =
     Inr (regex_req ''gap max 3 mm'') \<and>
   parse_query_to_filters (env_unavailable\<lparr>backend := ChatError\<rparr>) (Some ''show failed door tests'') =
     regex_filters ''show failed door tests'' \<and>
   explain_from_facts (env_unavailable\<lparr>backend := ChatError\<rparr>)
     \<lparr>fa_status = Some ''pass'', fa_measured_norm = Some 6, fa_target = Some 5, fa_unit = Some ''kN''\<rparr> =
     Inr ''Explanation unavailable.''"
proof -
  let ?E = "env_unavailable\<lparr>backend := ChatError\<rparr>"
  let ?f = "\<lparr>fa_status = Some ''pass'', fa_measured_norm = Some 6, fa_target = Some 5,
    fa_unit = Some ''kN''\<rparr>"
  have f1: "backend_failed ?E (loads_req ?E)" "backend_failed ?E (loads_filter ?E)"
    by (simp_all add: backend_failed_def)
  have f2: "strip (or_empty (Some ''gap max 3 mm'')) = ''gap max 3 mm''"
    by (simp add: strip_def or_empty_def is_space_def)
  have f3: "backend ?E = ChatError" "dumps ?E ?f \<noteq> None"
    by (simp_all add: env_unavailable_def)
  show ?thesis
    using backend_failure [of ?E "Some ''gap max 3 mm''" "Some ''show failed door tests''" ?f]
      f1 f2 f3
    by (simp add: or_empty_def)
qed

section \<open>Properties of the fallback query parser\<close>

lemma infer_unit_alt:
  "infer_unit ql =
    (if contains ''kn'' ql \<or> contains ''kilo'' ql then Some ''kN''
     else if contains ''mm'' ql then Some ''mm''
     else if contains ''n'' ql then Some ''N''
     else None)"
  by (simp add: infer_unit_def)

lemma regex_filters_threshold:
  assumes "first_match unit_patterns (lower q) = None"
    and "re_search number_unit (lower q) = None"
    and "first_match threshold_patterns (lower q) = Some m"
  shows "cf_min_value (regex_filters q) = Some (float (group m 1))"
    and "cf_unit (regex_filters q) = infer_unit (lower q)"
  using assms
  by (simp_all add: regex_filters_def filters_value_unit_def filters_unit_only_def Let_def
      case_prod_unfold)

lemma regex_filters_greater_than_5:
  "regex_filters ''greater than 5'' =
    \<lparr>cf_component = None, cf_metric = None, cf_status = None,
     cf_min_value = Some 5, cf_unit = Some ''N''\<rparr>"
  by code_simp

lemma regex_filters_N_or_mm:
  "regex_filters ''N or mm above 5'' =
    \<lparr>cf_component = None, cf_metric = None, cf_status = None,
     cf_min_value = Some 5, cf_unit = Some ''mm''\<rparr>"
  by code_simp

lemma threshold_only_N_or_mm:
  "first_match unit_patterns (lower ''N or mm above 5'') = None"
  "re_search number_unit (lower ''N or mm above 5'') = None"
  "first_match threshold_patterns (lower ''N or mm above 5'') = Some (''above 5'', [(1, ''5'')])"
  by code_simp+

lemma threshold_only_greater_than_5:
  "first_match unit_patterns (lower ''greater than 5'') = None"
  "re_search number_unit (lower ''greater than 5'') = None"
  "first_match threshold_patterns (lower ''greater than 5'') = Some (''greater than 5'', [(1, ''5'')])"
  by code_simp+

lemma threshold_only_above_5:
  "first_match unit_patterns (lower ''above 5.25'') = None"
  "re_search number_unit (lower ''above 5.25'') = None"
  "first_match threshold_patterns (lower ''above 5.25'') = Some (''above 5.25'', [(1, ''5.25'')])"
  by code_simp+

text \<open>
  C7 as stated fails.  The query "N or mm above 5" is threshold-only and names both N and
  mm; the claim's precedence gives N, the code gives mm.  The query "greater than 5" names
  no unit at all and still gets the unit N, from the letter n of "than".
\<close>

theorem threshold_unit_counterexample:
  "first_match unit_patterns (lower ''N or mm above 5'') = None \<and>
   re_search number_unit (lower ''N or mm above 5'') = None \<and>
   first_match threshold_patterns (lower ''N or mm above 5'') \<noteq> None \<and>
   spec_infer_unit (lower ''N or mm above 5'') = Some ''N'' \<and>
   cf_unit (regex_filters ''N or mm above 5'') = Some ''mm'' \<and>
   first_match unit_patterns (lower ''greater than 5'') = None \<and>
   re_search number_unit (lower ''greater than 5'') = None \<and>
   first_match threshold_patterns (lower ''greater than 5'') \<noteq> None \<and>
   cf_min_value (regex_filters ''greater than 5'') = Some 5 \<and>
   cf_unit (regex_filters ''greater than 5'') = Some ''N''"
proof -
  have "spec_infer_unit (lower ''N or mm above 5'') = Some ''N''"
    by code_simp
  then show ?thesis
    by (simp add: threshold_only_N_or_mm threshold_only_greater_than_5
        regex_filters_N_or_mm regex_filters_greater_than_5)
qed

text \<open>
  C7, amended.  When no unit-only pattern and no number-with-unit pattern matched but a
  threshold cue did, \<open>min_value\<close> is the number of the first matching cue and the unit comes
  from substring tests on the lower-cased query: kN if it contains "kn" or "kilo"; else mm
  if it contains "mm"; else N if it contains the letter "n" anywhere; else the unit is
  absent.
\<close>

theorem threshold_unit:
  assumes "first_match unit_patterns (lower q) = None"
    and "re_search number_unit (lower q) = None"
    and "first_match threshold_patterns (lower q) = Some m"
  shows "cf_min_value (regex_filters q) = Some (float (group m 1)) \<and>
    cf_unit (regex_filters q) =
      (if contains ''kn'' (lower q) \<or> contains ''kilo'' (lower q) then Some ''kN''
       else if contains ''mm'' (lower q) then Some ''mm''
       else if contains ''n'' (lower q) then Some ''N''
       else None)"
  using regex_filters_threshold [OF assms] infer_unit_alt [of "lower q"] by simp

theorem threshold_unit_witness:
  "cf_min_value (regex_filters ''above 5.25'') = Some (21 / 4) \<and>
   cf_unit (regex_filters ''above 5.25'') = None"
proof -
  have "float (group (''above 5.25'', [(1, ''5.25'')]) 1) = 21 / 4"
    by code_simp
  moreover have "\<not> contains ''kn'' (lower ''above 5.25'')" "\<not> contains ''kilo'' (lower ''above 5.25'')"
    "\<not> contains ''mm'' (lower ''above 5.25'')" "\<not> contains ''n'' (lower ''above 5.25'')"
    by code_simp+
  ultimately show ?thesis
    using threshold_unit [OF threshold_only_above_5] by simp
qed

end
